theory Spec2Isabelle
  imports Complex_Main
begin

section \<open>Data model (app/models.py, app/schemas.py)\<close>

text \<open>
  The enumerations of \<^verbatim>\<open>models.py\<close>. The columns of type \<^verbatim>\<open>Float\<close> (prices and
  order totals) are modelled as exact rationals: comparisons and the arithmetic of the
  source are read over the numbers the floats stand for, without the binary rounding of
  each operation. Integer columns are \<open>int\<close> (quantities and stock may be negative in
  the source), primary keys are \<open>nat\<close>.
\<close>

datatype user_role = CUSTOMER | VENDOR | ADMIN

datatype order_status =
  PENDING | CONFIRMED | PROCESSING | SHIPPED | DELIVERED | CANCELLED | REFUNDED

datatype product_status = ACTIVE | INACTIVE | OUT_OF_STOCK | DISCONTINUED

text \<open>
  Rows, with the columns the cart and order code reads or writes. The products table is
  keyed by its primary key, so a product row does not repeat its id. Address snapshots,
  notes, customer contact fields, payment fields and timestamps are written once and never
  read by the functions below; they are left out.
\<close>

record user =
  u_id :: nat
  u_role :: user_role

record product =
  p_name :: string
  p_sku :: string
  p_price :: rat
  p_status :: product_status
  p_track_inventory :: bool
  p_stock_quantity :: int

record cart_item =
  ci_id :: nat
  ci_user_id :: nat
  ci_product_id :: nat
  ci_variant_id :: "nat option"
  ci_quantity :: int

record session_cart =
  sc_id :: nat
  sc_session_id :: string
  sc_product_id :: nat
  sc_quantity :: int

record order_row =
  o_id :: nat
  o_order_number :: string
  o_user_id :: "nat option"
  o_session_id :: "string option"
  o_subtotal :: rat
  o_tax_amount :: rat
  o_shipping_amount :: rat
  o_discount_amount :: rat
  o_total_amount :: rat
  o_status :: order_status

record order_item =
  oi_id :: nat
  oi_order_id :: nat
  oi_product_id :: nat
  oi_variant_id :: "nat option"
  oi_product_name :: string
  oi_product_sku :: string
  oi_quantity :: int
  oi_unit_price :: rat
  oi_total_price :: rat

text \<open>\<^verbatim>\<open>schemas.OrderItemCreate\<close>: one requested line of \<^verbatim>\<open>schemas.OrderCreate.items\<close>.\<close>

record order_item_create =
  oic_product_id :: nat
  oic_variant_id :: "nat option"
  oic_quantity :: int
  oic_unit_price :: rat

text \<open>
  The exceptions the code raises. \<open>detail\<close> stands for the message of an
  \<^verbatim>\<open>HTTPException\<close> or a \<^verbatim>\<open>ValueError\<close>, with the values formatted into it.
  \<open>IntegrityError\<close> is what SQLAlchemy raises when a commit violates a constraint,
  \<open>DataError\<close> what it raises when a commit writes a value its column cannot hold,
  \<open>AttributeError\<close> what Python raises on \<^verbatim>\<open>None.attr\<close>.
\<close>

datatype detail =
    Cart_is_empty
  | Insufficient_stock_only string int
  | Insufficient_stock_available string int
  | Insufficient_stock_requested string int int
  | Product_not_found
  | Product_not_available string
  | Failed_to_create_order
  | Quantity_must_be_greater_than_0
  | Cart_item_not_found
  | Order_not_found
  | Not_authorized_to_cancel
  | Order_cannot_be_cancelled

datatype error =
    HTTPException nat detail
  | ValueError detail
  | IntegrityError
  | DataError
  | AttributeError

section \<open>The database and the SQLAlchemy session\<close>

text \<open>
  A database state is the content of the five tables. Rows of a list-valued table stand
  in insertion order. A session (\<^verbatim>\<open>SessionLocal()\<close>, \<^verbatim>\<open>autocommit=False\<close>) holds the
  last committed state and the state the request sees, with its pending writes.
  \<^verbatim>\<open>db.commit()\<close> checks the constraint of \<^verbatim>\<open>models.Order.order_number\<close>
  (\<^verbatim>\<open>unique=True\<close>) and makes the pending writes durable; \<^verbatim>\<open>db.rollback()\<close> and the
  end of a request that raised (\<^verbatim>\<open>db.close()\<close>) drop them.
\<close>

record database =
  products :: "nat \<rightharpoonup> product"
  cart_items :: "cart_item list"
  session_carts :: "session_cart list"
  orders :: "order_row list"
  order_items :: "order_item list"

record session =
  committed :: database
  working :: database

definition begin_session :: "database \<Rightarrow> session" where
  "begin_session d = \<lparr>committed = d, working = d\<rparr>"

definition order_number_unique :: "database \<Rightarrow> bool" where
  "order_number_unique d = distinct (map o_order_number (orders d))"

definition db_commit :: "session \<Rightarrow> error + session" where
  "db_commit s =
     (if order_number_unique (working s) then Inr (s\<lparr>committed := working s\<rparr>)
      else Inl IntegrityError)"

definition db_rollback :: "session \<Rightarrow> session" where
  "db_rollback s = s\<lparr>working := committed s\<rparr>"

text \<open>
  The quantity of a cart line is a \<^verbatim>\<open>Column(Integer)\<close>, a 32-bit \<^verbatim>\<open>INTEGER\<close> on the
  PostgreSQL engine that \<^verbatim>\<open>database.py\<close> configures, while the request schema
  (\<^verbatim>\<open>quantity: int\<close>) accepts any integer. A commit whose \<^verbatim>\<open>UPDATE\<close> carries a
  quantity outside the column's range raises and writes nothing.
\<close>

definition integer_column :: "int \<Rightarrow> bool" where
  "integer_column v = (- 2147483648 \<le> v \<and> v \<le> 2147483647)"

definition db_commit_quantity :: "int \<Rightarrow> session \<Rightarrow> error + session" where
  "db_commit_quantity quantity s =
     (if integer_column quantity then db_commit s else Inl DataError)"

text \<open>An autoincrement primary key: one more than the largest key in the table.\<close>

definition next_id :: "nat list \<Rightarrow> nat" where
  "next_id ids = Suc (fold max ids 0)"

definition db_add_order :: "order_row \<Rightarrow> session \<Rightarrow> session" where
  "db_add_order row s = s\<lparr>working := (working s)\<lparr>orders := orders (working s) @ [row]\<rparr>\<rparr>"

definition db_add_order_item :: "order_item \<Rightarrow> session \<Rightarrow> session" where
  "db_add_order_item row s =
     s\<lparr>working := (working s)\<lparr>order_items := order_items (working s) @ [row]\<rparr>\<rparr>"

definition set_stock_quantity :: "nat \<Rightarrow> int \<Rightarrow> session \<Rightarrow> session" where
  "set_stock_quantity pid q s =
     (case products (working s) pid of
        None \<Rightarrow> s
      | Some p \<Rightarrow>
          s\<lparr>working := (working s)\<lparr>products := (products (working s))(pid \<mapsto> p\<lparr>p_stock_quantity := q\<rparr>)\<rparr>\<rparr>)"

text \<open>\<^verbatim>\<open>crud.get_product_by_id\<close>; the rating it attaches is not a column.\<close>

definition get_product_by_id :: "database \<Rightarrow> nat \<Rightarrow> product option" where
  "get_product_by_id d product_id = products d product_id"

definition get_user_cart :: "database \<Rightarrow> nat \<Rightarrow> cart_item list" where
  "get_user_cart d user_id = filter (\<lambda>c. ci_user_id c = user_id) (cart_items d)"

definition get_session_cart_items :: "database \<Rightarrow> string \<Rightarrow> session_cart list" where
  "get_session_cart_items d session_id =
     filter (\<lambda>c. sc_session_id c = session_id) (session_carts d)"

definition get_order_by_id :: "database \<Rightarrow> nat \<Rightarrow> order_row option" where
  "get_order_by_id d order_id = find (\<lambda>r. o_id r = order_id) (orders d)"

definition order_items_of :: "database \<Rightarrow> nat \<Rightarrow> order_item list" where
  "order_items_of d order_id = filter (\<lambda>i. oi_order_id i = order_id) (order_items d)"

section \<open>Money\<close>

text \<open>
  Python's \<^verbatim>\<open>round(x, 2)\<close>: the nearest multiple of 0.01, a tie going to the even
  one. The function is applied here to the exact value of its argument. In the source
  the argument is a double, and a product such as \<^verbatim>\<open>2.75 * 0.18\<close>, exactly the tie
  0.495, is the double just below it and rounds to 0.49 there, to 0.50 here. At such
  knife-edge arguments the stored hundredths of the source and of this function can
  differ by one; what is proved below about rounded amounts (two decimal places, at most
  0.005 from the argument) does not depend on the direction of a tie.
\<close>

definition py_round2 :: "rat \<Rightarrow> rat" where
  "py_round2 x =
     (let y = x * 100; n = \<lfloor>y\<rfloor>; r = y - of_int n
      in of_int (if r < 1 / 2 then n else if 1 / 2 < r then n + 1
                 else if even n then n else n + 1) / 100)"

definition two_decimals :: "rat \<Rightarrow> bool" where
  "two_decimals x = (of_int \<lfloor>x * 100\<rfloor> = x * 100)"

text \<open>
  The shipping amount, as each place computes it from the subtotal:
  \<^verbatim>\<open>crud.create_order\<close> (\<^verbatim>\<open>0.0 if subtotal > 500 else 50.0\<close>),
  \<^verbatim>\<open>crud.create_order_from_session_cart\<close> and \<^verbatim>\<open>crud.get_session_cart\<close>
  (\<^verbatim>\<open>0.0 if subtotal >= shipping_threshold or subtotal == 0 else 50.0\<close>), and
  \<^verbatim>\<open>routers/cart.get_cart_summary\<close>
  (\<^verbatim>\<open>0 if (subtotal == 0 or subtotal >= shipping_threshold) else 50\<close>).
\<close>

definition create_order_shipping_amount :: "rat \<Rightarrow> rat" where
  "create_order_shipping_amount subtotal = (if subtotal > 500 then 0 else 50)"

definition session_cart_shipping_amount :: "rat \<Rightarrow> rat" where
  "session_cart_shipping_amount subtotal =
     (let shipping_threshold = 500
      in if subtotal \<ge> shipping_threshold \<or> subtotal = 0 then 0 else 50)"

definition cart_summary_shipping_amount :: "rat \<Rightarrow> rat" where
  "cart_summary_shipping_amount subtotal =
     (let shipping_threshold = 500
      in if subtotal = 0 \<or> subtotal \<ge> shipping_threshold then 0 else 50)"

section \<open>Order numbers\<close>

text \<open>\<^verbatim>\<open>str.upper\<close>, character by character.\<close>

definition upper_char :: "char \<Rightarrow> char" where
  "upper_char c =
     (case map_of (zip ''abcdefghijklmnopqrstuvwxyz'' ''ABCDEFGHIJKLMNOPQRSTUVWXYZ'') c of
        None \<Rightarrow> c
      | Some u \<Rightarrow> u)"

text \<open>
  \<^verbatim>\<open>f"ORD-{datetime.now().strftime('%Y%m%d')}-{str(uuid.uuid4())[:8].upper()}"\<close>:
  \<open>today\<close> is the formatted date and \<open>uuid4\<close> the text of the random UUID, both
  supplied by the environment.
\<close>

definition create_order_number :: "string \<Rightarrow> string \<Rightarrow> string" where
  "create_order_number today uuid4 = ''ORD-'' @ today @ ''-'' @ map upper_char (take 8 uuid4)"

text \<open>The decimal text of a number (\<^verbatim>\<open>str\<close> of a non-negative \<^verbatim>\<open>int\<close>).\<close>

fun str_nat :: "nat \<Rightarrow> string" where
  "str_nat n =
     (if n < 10 then [''0123456789'' ! n]
      else str_nat (n div 10) @ [''0123456789'' ! (n mod 10)])"

text \<open>
  \<^verbatim>\<open>f"ORD-{int(time.time())}-{session_id[:8]}"\<close>: \<open>now\<close> is the clock in whole
  seconds.
\<close>

declare str_nat.simps [simp del]

definition session_order_number :: "nat \<Rightarrow> string \<Rightarrow> string" where
  "session_order_number now session_id = ''ORD-'' @ str_nat now @ ''-'' @ take 8 session_id"

section \<open>crud.create_order\<close>

text \<open>
  The loop over \<^verbatim>\<open>order.items\<close> after the order row is committed: a line whose
  product is not found is skipped (\<^verbatim>\<open>if product:\<close>).
\<close>

fun create_order_add_items :: "nat \<Rightarrow> order_item_create list \<Rightarrow> session \<Rightarrow> session" where
  "create_order_add_items order_id [] s = s"
| "create_order_add_items order_id (item_data # rest) s =
     (case get_product_by_id (working s) (oic_product_id item_data) of
        None \<Rightarrow> create_order_add_items order_id rest s
      | Some product \<Rightarrow>
          create_order_add_items order_id rest
            (db_add_order_item
               \<lparr>oi_id = next_id (map oi_id (order_items (working s))),
                oi_order_id = order_id,
                oi_product_id = oic_product_id item_data,
                oi_variant_id = oic_variant_id item_data,
                oi_product_name = p_name product,
                oi_product_sku = p_sku product,
                oi_quantity = oic_quantity item_data,
                oi_unit_price = oic_unit_price item_data,
                oi_total_price = of_int (oic_quantity item_data) * oic_unit_price item_data\<rparr>
               s))"

definition create_order ::
  "string \<Rightarrow> string \<Rightarrow> order_item_create list \<Rightarrow> nat \<Rightarrow> session \<Rightarrow> (error + order_row) \<times> session"
where
  "create_order today uuid4 items user_id s =
     (let order_number = create_order_number today uuid4;
          subtotal = sum_list (map (\<lambda>item. of_int (oic_quantity item) * oic_unit_price item) items);
          tax_amount = subtotal * (18 / 100);
          shipping_amount = create_order_shipping_amount subtotal;
          total_amount = subtotal + tax_amount + shipping_amount;
          db_order =
            \<lparr>o_id = next_id (map o_id (orders (working s))),
             o_order_number = order_number,
             o_user_id = Some user_id,
             o_session_id = None,
             o_subtotal = subtotal,
             o_tax_amount = tax_amount,
             o_shipping_amount = shipping_amount,
             o_discount_amount = 0,
             o_total_amount = total_amount,
             o_status = PENDING\<rparr>;
          s1 = db_add_order db_order s
      in case db_commit s1 of
           Inl e \<Rightarrow> (Inl e, s1)
         | Inr s2 \<Rightarrow>
             (let s3 = create_order_add_items (o_id db_order) items s2
              in case db_commit s3 of
                   Inl e \<Rightarrow> (Inl e, s3)
                 | Inr s4 \<Rightarrow> (Inr db_order, s4)))"

section \<open>Authenticated checkout: routers/orders.create_order_from_cart\<close>

text \<open>
  \<^verbatim>\<open>item.product\<close> is the row of the products table with the line's
  \<^verbatim>\<open>product_id\<close>, or \<^verbatim>\<open>None\<close>. The validation loop of the endpoint reads
  \<^verbatim>\<open>product.track_inventory\<close> and \<^verbatim>\<open>product.stock_quantity\<close> only.
\<close>

fun checkout_validate_stock :: "database \<Rightarrow> cart_item list \<Rightarrow> error option" where
  "checkout_validate_stock d [] = None"
| "checkout_validate_stock d (item # rest) =
     (case products d (ci_product_id item) of
        None \<Rightarrow> Some AttributeError
      | Some product \<Rightarrow>
          if p_track_inventory product \<and> p_stock_quantity product < ci_quantity item
          then Some (HTTPException 400
                 (Insufficient_stock_only (p_name product) (p_stock_quantity product)))
          else checkout_validate_stock d rest)"

text \<open>
  The \<^verbatim>\<open>OrderItemCreate\<close> list built from the cart: product id, quantity and the
  product's current price; the variant is not passed on. (The subtotal, tax, shipping and
  total the endpoint computes before this are never used: \<^verbatim>\<open>crud.create_order\<close>
  computes its own.)
\<close>

fun checkout_order_items :: "database \<Rightarrow> cart_item list \<Rightarrow> error + order_item_create list" where
  "checkout_order_items d [] = Inr []"
| "checkout_order_items d (cart_item # rest) =
     (case products d (ci_product_id cart_item) of
        None \<Rightarrow> Inl AttributeError
      | Some product \<Rightarrow>
          (case checkout_order_items d rest of
             Inl e \<Rightarrow> Inl e
           | Inr items \<Rightarrow>
               Inr (\<lparr>oic_product_id = ci_product_id cart_item,
                     oic_variant_id = None,
                     oic_quantity = ci_quantity cart_item,
                     oic_unit_price = p_price product\<rparr> # items)))"

fun checkout_decrement_stock :: "cart_item list \<Rightarrow> session \<Rightarrow> error + session" where
  "checkout_decrement_stock [] s = Inr s"
| "checkout_decrement_stock (cart_item # rest) s =
     (case products (working s) (ci_product_id cart_item) of
        None \<Rightarrow> Inl AttributeError
      | Some product \<Rightarrow>
          if p_track_inventory product
          then checkout_decrement_stock rest
                 (set_stock_quantity (ci_product_id cart_item)
                    (p_stock_quantity product - ci_quantity cart_item) s)
          else checkout_decrement_stock rest s)"

definition clear_user_cart :: "nat \<Rightarrow> session \<Rightarrow> error + session" where
  "clear_user_cart user_id s =
     db_commit
       (s\<lparr>working := (working s)
            \<lparr>cart_items := filter (\<lambda>c. ci_user_id c \<noteq> user_id) (cart_items (working s))\<rparr>\<rparr>)"

text \<open>
  The endpoint. The result is the error raised or the order returned, with the database
  as the request leaves it (the last committed state).
\<close>

definition create_order_from_cart ::
  "string \<Rightarrow> string \<Rightarrow> user \<Rightarrow> database \<Rightarrow> (error + order_row) \<times> database"
where
  "create_order_from_cart today uuid4 current_user d =
     (let s = begin_session d;
          cart = get_user_cart (working s) (u_id current_user)
      in if cart = [] then (Inl (HTTPException 400 Cart_is_empty), committed s)
         else
           case checkout_validate_stock (working s) cart of
             Some e \<Rightarrow> (Inl e, committed s)
           | None \<Rightarrow>
               (case checkout_order_items (working s) cart of
                  Inl e \<Rightarrow> (Inl e, committed s)
                | Inr items \<Rightarrow>
                    (case create_order today uuid4 items (u_id current_user) s of
                       (Inl e, s1) \<Rightarrow> (Inl e, committed s1)
                     | (Inr order, s1) \<Rightarrow>
                         (case checkout_decrement_stock cart s1 of
                            Inl e \<Rightarrow> (Inl e, committed s1)
                          | Inr s2 \<Rightarrow>
                              (case db_commit s2 of
                                 Inl e \<Rightarrow> (Inl e, committed s2)
                               | Inr s3 \<Rightarrow>
                                   (case clear_user_cart (u_id current_user) s3 of
                                      Inl e \<Rightarrow> (Inl e, committed s3)
                                    | Inr s4 \<Rightarrow> (Inr order, committed s4)))))))"

section \<open>Guest checkout: crud.create_order_from_session_cart and its endpoint\<close>

fun session_validate :: "database \<Rightarrow> session_cart list \<Rightarrow> error option" where
  "session_validate d [] = None"
| "session_validate d (cart_item # rest) =
     (case products d (sc_product_id cart_item) of
        None \<Rightarrow> Some (ValueError Product_not_found)
      | Some product \<Rightarrow>
          if p_status product \<noteq> ACTIVE
          then Some (ValueError (Product_not_available (p_name product)))
          else if p_track_inventory product \<and> p_stock_quantity product < sc_quantity cart_item
          then Some (ValueError
                 (Insufficient_stock_requested (p_name product) (p_stock_quantity product)
                    (sc_quantity cart_item)))
          else session_validate d rest)"

fun session_subtotal :: "database \<Rightarrow> session_cart list \<Rightarrow> error + rat" where
  "session_subtotal d [] = Inr 0"
| "session_subtotal d (item # rest) =
     (case products d (sc_product_id item) of
        None \<Rightarrow> Inl AttributeError
      | Some product \<Rightarrow>
          (case session_subtotal d rest of
             Inl e \<Rightarrow> Inl e
           | Inr t \<Rightarrow> Inr (of_int (sc_quantity item) * p_price product + t)))"

text \<open>
  The loop that writes the line items and reduces the stock, with its second stock check.
  When that check fails the code calls \<^verbatim>\<open>db.rollback()\<close> and then formats the
  message, so the message shows the product as reloaded after the rollback.
\<close>

fun session_add_items :: "nat \<Rightarrow> session_cart list \<Rightarrow> session \<Rightarrow> (error + unit) \<times> session" where
  "session_add_items order_id [] s = (Inr (), s)"
| "session_add_items order_id (cart_item # rest) s =
     (case products (working s) (sc_product_id cart_item) of
        None \<Rightarrow> (Inl AttributeError, s)
      | Some product \<Rightarrow>
          if p_track_inventory product \<and> p_stock_quantity product < sc_quantity cart_item
          then
            (let s' = db_rollback s
             in case products (working s') (sc_product_id cart_item) of
                  None \<Rightarrow> (Inl AttributeError, s')
                | Some reloaded \<Rightarrow>
                    (Inl (ValueError
                       (Insufficient_stock_available (p_name reloaded) (p_stock_quantity reloaded))),
                     s'))
          else
            (let s1 = db_add_order_item
                   \<lparr>oi_id = next_id (map oi_id (order_items (working s))),
                    oi_order_id = order_id,
                    oi_product_id = sc_product_id cart_item,
                    oi_variant_id = None,
                    oi_product_name = p_name product,
                    oi_product_sku = p_sku product,
                    oi_quantity = sc_quantity cart_item,
                    oi_unit_price = p_price product,
                    oi_total_price = p_price product * of_int (sc_quantity cart_item)\<rparr>
                   s;
                 s2 = (if p_track_inventory product
                       then set_stock_quantity (sc_product_id cart_item)
                              (p_stock_quantity product - sc_quantity cart_item) s1
                       else s1)
             in session_add_items order_id rest s2))"

definition clear_session_cart :: "string \<Rightarrow> session \<Rightarrow> error + session" where
  "clear_session_cart session_id s =
     db_commit
       (s\<lparr>working := (working s)
            \<lparr>session_carts :=
               filter (\<lambda>c. sc_session_id c \<noteq> session_id) (session_carts (working s))\<rparr>\<rparr>)"

definition crud_create_order_from_session_cart ::
  "nat \<Rightarrow> string \<Rightarrow> session \<Rightarrow> (error + order_row option) \<times> session"
where
  "crud_create_order_from_session_cart now session_id s =
     (let cart = get_session_cart_items (working s) session_id
      in if cart = [] then (Inr None, s)
         else
           case session_validate (working s) cart of
             Some e \<Rightarrow> (Inl e, s)
           | None \<Rightarrow>
               (case session_subtotal (working s) cart of
                  Inl e \<Rightarrow> (Inl e, s)
                | Inr subtotal \<Rightarrow>
                    (let tax_rate = 18 / 100;
                         tax_amount = py_round2 (subtotal * tax_rate);
                         shipping_amount = session_cart_shipping_amount subtotal;
                         total = py_round2 (subtotal + tax_amount + shipping_amount);
                         order_number = session_order_number now session_id;
                         db_order =
                           \<lparr>o_id = next_id (map o_id (orders (working s))),
                            o_order_number = order_number,
                            o_user_id = None,
                            o_session_id = Some session_id,
                            o_subtotal = py_round2 subtotal,
                            o_tax_amount = tax_amount,
                            o_shipping_amount = shipping_amount,
                            o_discount_amount = 0,
                            o_total_amount = total,
                            o_status = PENDING\<rparr>;
                         s1 = db_add_order db_order s
                     in case db_commit s1 of
                          Inl e \<Rightarrow> (Inl e, s1)
                        | Inr s2 \<Rightarrow>
                            (case session_add_items (o_id db_order) cart s2 of
                               (Inl e, s3) \<Rightarrow> (Inl e, s3)
                             | (Inr u, s3) \<Rightarrow>
                                 (case clear_session_cart session_id s3 of
                                    Inl e \<Rightarrow> (Inl e, s3)
                                  | Inr s4 \<Rightarrow>
                                      (case db_commit s4 of
                                         Inl e \<Rightarrow> (Inl e, s4)
                                       | Inr s5 \<Rightarrow> (Inr (Some db_order), s5)))))))"

text \<open>The endpoint turns a \<^verbatim>\<open>ValueError\<close> into an \<^verbatim>\<open>HTTPException\<close> with status 400.\<close>

fun value_error_to_http :: "error \<Rightarrow> error" where
  "value_error_to_http (ValueError m) = HTTPException 400 m"
| "value_error_to_http e = e"

definition router_create_order_from_session_cart ::
  "nat \<Rightarrow> string \<Rightarrow> database \<Rightarrow> (error + order_row) \<times> database"
where
  "router_create_order_from_session_cart now session_id d =
     (let s = begin_session d;
          cart_data_items = get_session_cart_items (working s) session_id
      in if cart_data_items = [] then (Inl (HTTPException 400 Cart_is_empty), committed s)
         else
           case crud_create_order_from_session_cart now session_id s of
             (Inl e, s1) \<Rightarrow> (Inl (value_error_to_http e), committed s1)
           | (Inr None, s1) \<Rightarrow> (Inl (HTTPException 400 Failed_to_create_order), committed s1)
           | (Inr (Some order), s1) \<Rightarrow> (Inr order, committed s1))"

section \<open>Cancelling an order: routers/orders.cancel_order\<close>

text \<open>
  A query ending in \<^verbatim>\<open>.first()\<close> yields the first matching row; a write to the object
  it returned, or \<^verbatim>\<open>db.delete\<close> of it, changes that row.
\<close>

fun update_first :: "('a \<Rightarrow> bool) \<Rightarrow> ('a \<Rightarrow> 'a) \<Rightarrow> 'a list \<Rightarrow> 'a list" where
  "update_first P f [] = []"
| "update_first P f (x # xs) = (if P x then f x # xs else x # update_first P f xs)"

fun delete_first :: "('a \<Rightarrow> bool) \<Rightarrow> 'a list \<Rightarrow> 'a list" where
  "delete_first P [] = []"
| "delete_first P (x # xs) = (if P x then xs else x # delete_first P xs)"




section \<open>Changing a cart line's quantity\<close>

text \<open>
  \<^verbatim>\<open>crud.update_cart_item\<close> and the endpoint \<^verbatim>\<open>routers/cart.update_cart_item\<close>.
  The commit sends the new quantity to the database, so it raises for a quantity the
  column cannot hold and the line keeps its old quantity.
\<close>

definition crud_update_cart_item ::
  "nat \<Rightarrow> nat \<Rightarrow> int \<Rightarrow> session \<Rightarrow> (error + cart_item option) \<times> session"
where
  "crud_update_cart_item cart_item_id user_id quantity s =
     (let q = (\<lambda>c. ci_id c = cart_item_id \<and> ci_user_id c = user_id)
      in case find q (cart_items (working s)) of
           None \<Rightarrow> (Inr None, s)
         | Some db_item \<Rightarrow>
             (let s1 = s\<lparr>working := (working s)
                         \<lparr>cart_items := update_first q (\<lambda>c. c\<lparr>ci_quantity := quantity\<rparr>)
                                         (cart_items (working s))\<rparr>\<rparr>
              in case db_commit_quantity quantity s1 of
                   Inl e \<Rightarrow> (Inl e, s1)
                 | Inr s2 \<Rightarrow> (Inr (Some (db_item\<lparr>ci_quantity := quantity\<rparr>)), s2)))"

definition router_update_cart_item ::
  "nat \<Rightarrow> int \<Rightarrow> user \<Rightarrow> database \<Rightarrow> (error + cart_item) \<times> database"
where
  "router_update_cart_item cart_item_id quantity current_user d =
     (if quantity \<le> 0 then (Inl (HTTPException 400 Quantity_must_be_greater_than_0), d)
      else
        case crud_update_cart_item cart_item_id (u_id current_user) quantity (begin_session d) of
          (Inl e, s1) \<Rightarrow> (Inl e, committed s1)
        | (Inr None, s1) \<Rightarrow> (Inl (HTTPException 404 Cart_item_not_found), committed s1)
        | (Inr (Some db_item), s1) \<Rightarrow> (Inr db_item, committed s1))"

text \<open>
  \<^verbatim>\<open>crud.update_session_cart_item\<close> and the endpoint
  \<^verbatim>\<open>routers/cart.update_session_cart_item\<close>. Deleting the line sends no quantity;
  setting it does, with the same error for a quantity the column cannot hold.
\<close>

definition crud_update_session_cart_item ::
  "string \<Rightarrow> nat \<Rightarrow> int \<Rightarrow> session \<Rightarrow> (error + session_cart option) \<times> session"
where
  "crud_update_session_cart_item session_id product_id quantity s =
     (let q = (\<lambda>c. sc_session_id c = session_id \<and> sc_product_id c = product_id)
      in case find q (session_carts (working s)) of
           None \<Rightarrow> (Inr None, s)
         | Some cart_item \<Rightarrow>
             (let s1 =
                    (if quantity \<le> 0
                     then s\<lparr>working := (working s)
                            \<lparr>session_carts := delete_first q (session_carts (working s))\<rparr>\<rparr>
                     else s\<lparr>working := (working s)
                            \<lparr>session_carts := update_first q (\<lambda>c. c\<lparr>sc_quantity := quantity\<rparr>)
                                               (session_carts (working s))\<rparr>\<rparr>)
              in case (if quantity \<le> 0 then db_commit s1
                       else db_commit_quantity quantity s1) of
                   Inl e \<Rightarrow> (Inl e, s1)
                 | Inr s2 \<Rightarrow>
                     (Inr (Some (if quantity \<le> 0 then cart_item
                                 else cart_item\<lparr>sc_quantity := quantity\<rparr>)), s2)))"

definition router_update_session_cart_item ::
  "string \<Rightarrow> nat \<Rightarrow> int \<Rightarrow> database \<Rightarrow> (error + unit) \<times> database"
where
  "router_update_session_cart_item session_id product_id quantity d =
     (case crud_update_session_cart_item session_id product_id quantity (begin_session d) of
        (Inl e, s1) \<Rightarrow> (Inl e, committed s1)
      | (Inr None, s1) \<Rightarrow> (Inl (HTTPException 404 Cart_item_not_found), committed s1)
      | (Inr (Some result), s1) \<Rightarrow> (Inr (), committed s1))"

section \<open>Cart summaries\<close>

record cart_summary =
  cs_total_items :: int
  cs_subtotal :: rat
  cs_tax_amount :: rat
  cs_shipping_amount :: rat
  cs_total_amount :: rat

fun cart_subtotal :: "database \<Rightarrow> cart_item list \<Rightarrow> error + rat" where
  "cart_subtotal d [] = Inr 0"
| "cart_subtotal d (item # rest) =
     (case products d (ci_product_id item) of
        None \<Rightarrow> Inl AttributeError
      | Some product \<Rightarrow>
          (case cart_subtotal d rest of
             Inl e \<Rightarrow> Inl e
           | Inr t \<Rightarrow> Inr (p_price product * of_int (ci_quantity item) + t)))"

text \<open>\<^verbatim>\<open>routers/cart.get_cart_summary\<close>, without the per-line listing.\<close>

definition get_cart_summary :: "user \<Rightarrow> database \<Rightarrow> error + cart_summary" where
  "get_cart_summary current_user d =
     (let cart = get_user_cart d (u_id current_user);
          total_items = sum_list (map ci_quantity cart)
      in case cart_subtotal d cart of
           Inl e \<Rightarrow> Inl e
         | Inr subtotal \<Rightarrow>
             (let tax_rate = 18 / 100;
                  tax_amount = subtotal * tax_rate;
                  shipping_amount = cart_summary_shipping_amount subtotal;
                  total_amount = subtotal + tax_amount + shipping_amount
              in Inr \<lparr>cs_total_items = total_items,
                      cs_subtotal = py_round2 subtotal,
                      cs_tax_amount = py_round2 tax_amount,
                      cs_shipping_amount = shipping_amount,
                      cs_total_amount = py_round2 total_amount\<rparr>))"

text \<open>
  \<^verbatim>\<open>crud.get_session_cart\<close>, without the per-line listing: a line whose product is
  missing counts 0.0 (\<^verbatim>\<open>_serialize_session_cart_item\<close>).
\<close>

definition get_session_cart :: "string \<Rightarrow> database \<Rightarrow> cart_summary" where
  "get_session_cart session_id d =
     (let cart = get_session_cart_items d session_id;
          total_items = sum_list (map sc_quantity cart);
          subtotal = sum_list (map (\<lambda>item. case products d (sc_product_id item) of
                                             None \<Rightarrow> 0
                                           | Some product \<Rightarrow>
                                               p_price product * of_int (sc_quantity item)) cart);
          tax_rate = 18 / 100;
          tax_amount = py_round2 (subtotal * tax_rate);
          shipping_amount = session_cart_shipping_amount subtotal;
          total_amount = py_round2 (subtotal + tax_amount + shipping_amount)
      in \<lparr>cs_total_items = total_items,
          cs_subtotal = py_round2 subtotal,
          cs_tax_amount = tax_amount,
          cs_shipping_amount = shipping_amount,
          cs_total_amount = total_amount\<rparr>)"

section \<open>Example data\<close>

text \<open>
  A customer, and the product of the specification's scenarios: price 100, active, stock
  tracked, 5 in stock.
\<close>

definition example_user :: user where
  "example_user = \<lparr>u_id = 7, u_role = CUSTOMER\<rparr>"

definition product_a :: product where
  "product_a =
     \<lparr>p_name = ''A'', p_sku = ''SKU-A'', p_price = 100, p_status = ACTIVE,
      p_track_inventory = True, p_stock_quantity = 5\<rparr>"

definition empty_db :: database where
  "empty_db =
     \<lparr>products = Map.empty, cart_items = [], session_carts = [], orders = [],
      order_items = []\<rparr>"


definition catalog_db :: database where
  "catalog_db = empty_db\<lparr>products := [1 \<mapsto> product_a]\<rparr>"

text \<open>A cart of user 7 holding five of product 1: a subtotal of exactly 500.\<close>

definition threshold_db :: database where
  "threshold_db =
     catalog_db\<lparr>cart_items :=
       [\<lparr>ci_id = 1, ci_user_id = 7, ci_product_id = 1, ci_variant_id = None, ci_quantity = 5\<rparr>]\<rparr>"

text \<open>Product 1 was deactivated after user 7 put two of it in the cart.\<close>

definition inactive_db :: database where
  "inactive_db =
     empty_db\<lparr>products := [1 \<mapsto> product_a\<lparr>p_status := INACTIVE\<rparr>],
              cart_items :=
       [\<lparr>ci_id = 1, ci_user_id = 7, ci_product_id = 1, ci_variant_id = None, ci_quantity = 2\<rparr>]\<rparr>"

text \<open>
  The cart of user 7 holds product 1 twice, three without a variant and three of variant
  2 (\<^verbatim>\<open>crud.add_to_cart\<close> keeps one line per user, product and variant).
\<close>

definition variants_db :: database where
  "variants_db =
     catalog_db\<lparr>cart_items :=
       [\<lparr>ci_id = 1, ci_user_id = 7, ci_product_id = 1, ci_variant_id = None, ci_quantity = 3\<rparr>,
        \<lparr>ci_id = 2, ci_user_id = 7, ci_product_id = 1, ci_variant_id = Some 2, ci_quantity = 3\<rparr>]\<rparr>"

text \<open>One item priced 99.99 in the cart of user 7.\<close>

definition fraction_db :: database where
  "fraction_db =
     empty_db\<lparr>products := [1 \<mapsto> product_a\<lparr>p_price := 9999 / 100\<rparr>],
              cart_items :=
       [\<lparr>ci_id = 1, ci_user_id = 7, ci_product_id = 1, ci_variant_id = None, ci_quantity = 1\<rparr>]\<rparr>"

text \<open>
  A guest session whose cart has two rows for product 1, three each (the table has no
  uniqueness constraint on session and product).
\<close>

definition duplicate_rows_db :: database where
  "duplicate_rows_db =
     catalog_db\<lparr>session_carts :=
       [\<lparr>sc_id = 1, sc_session_id = ''guest-session'', sc_product_id = 1, sc_quantity = 3\<rparr>,
        \<lparr>sc_id = 2, sc_session_id = ''guest-session'', sc_product_id = 1, sc_quantity = 3\<rparr>]\<rparr>"

text \<open>The cart of a guest session: two of product 1.\<close>

definition guest_db :: database where
  "guest_db =
     catalog_db\<lparr>session_carts :=
       [\<lparr>sc_id = 1, sc_session_id = ''guest-session'', sc_product_id = 1, sc_quantity = 2\<rparr>]\<rparr>"

text \<open>
  The order a guest checkout of \<open>guest_db\<close> at second 1700000000 creates, and the
  database after it once the session has put two of product 1 in its cart again.
\<close>

definition first_guest_order :: order_row where
  "first_guest_order =
     \<lparr>o_id = 1, o_order_number = ''ORD-1700000000-guest-se'', o_user_id = None,
      o_session_id = Some ''guest-session'', o_subtotal = 200, o_tax_amount = 36,
      o_shipping_amount = 50, o_discount_amount = 0, o_total_amount = 286,
      o_status = PENDING\<rparr>"

definition refilled_db :: database where
  "refilled_db =
     \<lparr>products = [1 \<mapsto> product_a\<lparr>p_stock_quantity := 3\<rparr>],
      cart_items = [],
      session_carts = session_carts guest_db,
      orders = [first_guest_order],
      order_items =
        [\<lparr>oi_id = 1, oi_order_id = 1, oi_product_id = 1, oi_variant_id = None,
          oi_product_name = ''A'', oi_product_sku = ''SKU-A'', oi_quantity = 2,
          oi_unit_price = 100, oi_total_price = 200\<rparr>]\<rparr>"





text \<open>
  The same database with the cart of another guest session, whose id begins with the
  same eight characters, holding one of product 1.
\<close>

definition other_guest_db :: database where
  "other_guest_db =
     refilled_db\<lparr>session_carts :=
       [\<lparr>sc_id = 2, sc_session_id = ''guest-second'', sc_product_id = 1, sc_quantity = 1\<rparr>]\<rparr>"

section \<open>Verified properties\<close>

subsection \<open>The item loop of crud.create_order\<close>

lemma create_order_add_items_frame:
  "committed (create_order_add_items oid items s) = committed s \<and>
   products (working (create_order_add_items oid items s)) = products (working s) \<and>
   orders (working (create_order_add_items oid items s)) = orders (working s) \<and>
   cart_items (working (create_order_add_items oid items s)) = cart_items (working s) \<and>
   session_carts (working (create_order_add_items oid items s)) = session_carts (working s)"
  by (induction items arbitrary: s)
     (auto simp: db_add_order_item_def get_product_by_id_def split: option.splits)




subsection \<open>Evaluating rounding on literals\<close>

lemma floor_rat_divide_numeral:
  "\<lfloor>(numeral a :: rat) / numeral b\<rfloor> = numeral a div numeral b"
  using floor_divide_of_int_eq [of "numeral a" "numeral b", where ?'a = rat] by simp

lemma floor_rat_minus_divide_numeral:
  "\<lfloor>- ((numeral a :: rat) / numeral b)\<rfloor> = - numeral a div numeral b"
  using floor_divide_of_int_eq [of "- numeral a" "numeral b", where ?'a = rat] by simp

subsection \<open>Evaluating the endpoints on concrete databases\<close>

lemmas session_defs =
  begin_session_def db_commit_def db_rollback_def order_number_unique_def next_id_def
  db_add_order_def db_add_order_item_def set_stock_quantity_def get_product_by_id_def
  get_user_cart_def get_session_cart_items_def get_order_by_id_def order_items_of_def

lemmas example_defs =
  example_user_def product_a_def empty_db_def catalog_db_def

lemmas checkout_defs =
  create_order_from_cart_def create_order_def create_order_number_def upper_char_def
  create_order_shipping_amount_def clear_user_cart_def

lemmas session_checkout_defs =
  router_create_order_from_session_cart_def crud_create_order_from_session_cart_def
  session_order_number_def str_nat.simps session_cart_shipping_amount_def py_round2_def
  clear_session_cart_def

text \<open>
  C3. An authenticated checkout of a cart whose subtotal is exactly 500 stores a shipping
  amount of 50 (\<^verbatim>\<open>crud.create_order\<close> tests \<^verbatim>\<open>subtotal > 500\<close>), while the cart
  summary of the same cart shows a shipping amount of 0.
\<close>

theorem checkout_shipping_at_threshold:
  "fst (create_order_from_cart ''20240101'' ''abcdef12-0000'' example_user threshold_db) =
     Inr \<lparr>o_id = 1, o_order_number = ''ORD-20240101-ABCDEF12'', o_user_id = Some 7,
          o_session_id = None, o_subtotal = 500, o_tax_amount = 90, o_shipping_amount = 50,
          o_discount_amount = 0, o_total_amount = 640, o_status = PENDING\<rparr> \<and>
   get_cart_summary example_user threshold_db =
     Inr \<lparr>cs_total_items = 5, cs_subtotal = 500, cs_tax_amount = 90, cs_shipping_amount = 0,
          cs_total_amount = 590\<rparr>"
  by (simp add: checkout_defs session_defs example_defs threshold_db_def get_cart_summary_def
      cart_summary_shipping_amount_def py_round2_def Let_def)

text \<open>
  C2. An authenticated checkout of a cart line whose product is inactive succeeds: the
  order and its line item are stored, the stock goes from 5 to 3 and the cart is emptied.
\<close>

theorem checkout_accepts_inactive_product:
  "create_order_from_cart ''20240101'' ''abcdef12-0000'' example_user inactive_db =
     (Inr \<lparr>o_id = 1, o_order_number = ''ORD-20240101-ABCDEF12'', o_user_id = Some 7,
           o_session_id = None, o_subtotal = 200, o_tax_amount = 36, o_shipping_amount = 50,
           o_discount_amount = 0, o_total_amount = 286, o_status = PENDING\<rparr>,
      \<lparr>products = [1 \<mapsto> product_a\<lparr>p_status := INACTIVE, p_stock_quantity := 3\<rparr>],
       cart_items = [],
       session_carts = [],
       orders = [\<lparr>o_id = 1, o_order_number = ''ORD-20240101-ABCDEF12'', o_user_id = Some 7,
           o_session_id = None, o_subtotal = 200, o_tax_amount = 36, o_shipping_amount = 50,
           o_discount_amount = 0, o_total_amount = 286, o_status = PENDING\<rparr>],
       order_items = [\<lparr>oi_id = 1, oi_order_id = 1, oi_product_id = 1, oi_variant_id = None,
           oi_product_name = ''A'', oi_product_sku = ''SKU-A'', oi_quantity = 2,
           oi_unit_price = 100, oi_total_price = 200\<rparr>]\<rparr>)"
  by (simp add: checkout_defs session_defs example_defs inactive_db_def Let_def)

text \<open>
  C5. An authenticated checkout of a cart that holds product 1 (tracked, 5 in stock) on
  two lines of three each succeeds and leaves a stock of -1.
\<close>

theorem checkout_drives_stock_negative:
  "(case create_order_from_cart ''20240101'' ''abcdef12-0000'' example_user variants_db of
      (r, d') \<Rightarrow> (isl r, map_option p_stock_quantity (products d' 1),
                  map oi_quantity (order_items d'))) =
     (False, Some (- 1), [3, 3])"
  by (simp add: checkout_defs session_defs example_defs variants_db_def Let_def)

text \<open>
  C4. An authenticated checkout of one item priced 99.99 stores a tax amount of 17.9982
  and a total of 167.9882: neither is rounded to two decimal places.
\<close>

theorem checkout_stores_unrounded_amounts:
  "fst (create_order_from_cart ''20240101'' ''abcdef12-0000'' example_user fraction_db) =
     Inr \<lparr>o_id = 1, o_order_number = ''ORD-20240101-ABCDEF12'', o_user_id = Some 7,
          o_session_id = None, o_subtotal = 9999 / 100, o_tax_amount = 179982 / 10000,
          o_shipping_amount = 50, o_discount_amount = 0, o_total_amount = 1679882 / 10000,
          o_status = PENDING\<rparr> \<and>
   \<not> two_decimals (179982 / 10000) \<and> \<not> two_decimals (1679882 / 10000)"
  by (simp add: checkout_defs session_defs example_defs fraction_db_def two_decimals_def floor_rat_divide_numeral Let_def)

text \<open>
  C1. A guest checkout whose second stock check fails in the item loop ends with an
  error, and the order row committed before the loop stays in the database with no line
  item, although the cart has two lines; stock and cart are as before.
\<close>

theorem session_checkout_leaves_order_without_items:
  "router_create_order_from_session_cart 1700000000 ''guest-session'' duplicate_rows_db =
     (Inl (HTTPException 400 (Insufficient_stock_available ''A'' 5)),
      duplicate_rows_db\<lparr>orders :=
        [\<lparr>o_id = 1, o_order_number = ''ORD-1700000000-guest-se'', o_user_id = None,
          o_session_id = Some ''guest-session'', o_subtotal = 600, o_tax_amount = 108,
          o_shipping_amount = 0, o_discount_amount = 0, o_total_amount = 708,
          o_status = PENDING\<rparr>]\<rparr>) \<and>
   order_items_of
     (snd (router_create_order_from_session_cart 1700000000 ''guest-session'' duplicate_rows_db)) 1
     = []"
  by (simp add: session_checkout_defs session_defs example_defs duplicate_rows_db_def Let_def)

subsection \<open>Rows found by a query\<close>

lemma find_first_match:
  "\<forall>c\<in>set xs. \<not> P c \<Longrightarrow> P x \<Longrightarrow> find P (xs @ x # ys) = Some x"
  by (induction xs) auto

lemma update_first_match:
  "\<forall>c\<in>set xs. \<not> P c \<Longrightarrow> P x \<Longrightarrow> update_first P f (xs @ x # ys) = xs @ f x # ys"
  by (induction xs) auto

lemma delete_first_match:
  "\<forall>c\<in>set xs. \<not> P c \<Longrightarrow> P x \<Longrightarrow> delete_first P (xs @ x # ys) = xs @ ys"
  by (induction xs) auto

subsection \<open>Changing a quantity\<close>

text \<open>
  C8, as the code has it. Let the first cart line the query finds be \<open>item\<close> (guest
  cart: the first row of the session for the product) or \<open>line\<close> (authenticated cart:
  the first row with the given id that belongs to the user), in a database whose order
  numbers are distinct. The guest endpoint deletes that row when the quantity is at most
  0; all other rows stay. The authenticated endpoint refuses a quantity of at most 0
  with status 400 and leaves the cart unchanged. A positive quantity that fits the
  quantity column (at most 2147483647)
  replaces the row's quantity on both endpoints: the new quantity is the given value,
  whatever the old one was.
\<close>

theorem set_item_quantity:
  assumes u: "order_number_unique d"
    and r: "quantity \<le> 2147483647"
  shows
    "(session_carts d = xs @ item # ys \<and>
      (\<forall>c\<in>set xs. \<not> (sc_session_id c = session_id \<and> sc_product_id c = product_id)) \<and>
      sc_session_id item = session_id \<and> sc_product_id item = product_id \<longrightarrow>
        router_update_session_cart_item session_id product_id quantity d =
          (Inr (), d\<lparr>session_carts :=
                      (if quantity \<le> 0 then xs @ ys
                       else xs @ item\<lparr>sc_quantity := quantity\<rparr> # ys)\<rparr>)) \<and>
     (cart_items d = us @ line # vs \<and>
      (\<forall>c\<in>set us. \<not> (ci_id c = cart_item_id \<and> ci_user_id c = u_id current_user)) \<and>
      ci_id line = cart_item_id \<and> ci_user_id line = u_id current_user \<longrightarrow>
        router_update_cart_item cart_item_id quantity current_user d =
          (if quantity \<le> 0 then (Inl (HTTPException 400 Quantity_must_be_greater_than_0), d)
           else (Inr (line\<lparr>ci_quantity := quantity\<rparr>),
                 d\<lparr>cart_items := us @ line\<lparr>ci_quantity := quantity\<rparr> # vs\<rparr>)))"
proof (intro conjI impI)
  assume a: "session_carts d = xs @ item # ys \<and>
      (\<forall>c\<in>set xs. \<not> (sc_session_id c = session_id \<and> sc_product_id c = product_id)) \<and>
      sc_session_id item = session_id \<and> sc_product_id item = product_id"
  let ?q = "\<lambda>c. sc_session_id c = session_id \<and> sc_product_id c = product_id"
  from a have f: "find ?q (session_carts d) = Some item"
    by (simp add: find_first_match)
  from a have up: "update_first ?q g (session_carts d) = xs @ g item # ys" for g
    by (simp add: update_first_match)
  from a have del: "delete_first ?q (session_carts d) = xs @ ys"
    by (simp add: delete_first_match)
  show "router_update_session_cart_item session_id product_id quantity d =
          (Inr (), d\<lparr>session_carts :=
                      (if quantity \<le> 0 then xs @ ys
                       else xs @ item\<lparr>sc_quantity := quantity\<rparr> # ys)\<rparr>)"
    using u r f up del
    by (simp add: router_update_session_cart_item_def crud_update_session_cart_item_def
        begin_session_def db_commit_quantity_def integer_column_def db_commit_def
        order_number_unique_def Let_def)
next
  assume a: "cart_items d = us @ line # vs \<and>
      (\<forall>c\<in>set us. \<not> (ci_id c = cart_item_id \<and> ci_user_id c = u_id current_user)) \<and>
      ci_id line = cart_item_id \<and> ci_user_id line = u_id current_user"
  let ?q = "\<lambda>c. ci_id c = cart_item_id \<and> ci_user_id c = u_id current_user"
  from a have f: "find ?q (cart_items d) = Some line"
    by (simp add: find_first_match)
  from a have up: "update_first ?q g (cart_items d) = us @ g line # vs" for g
    by (simp add: update_first_match)
  show "router_update_cart_item cart_item_id quantity current_user d =
          (if quantity \<le> 0 then (Inl (HTTPException 400 Quantity_must_be_greater_than_0), d)
           else (Inr (line\<lparr>ci_quantity := quantity\<rparr>),
                 d\<lparr>cart_items := us @ line\<lparr>ci_quantity := quantity\<rparr> # vs\<rparr>))"
    using u r f up
    by (simp add: router_update_cart_item_def crud_update_cart_item_def
        begin_session_def db_commit_quantity_def integer_column_def db_commit_def
        order_number_unique_def Let_def)
qed

theorem set_item_quantity_witness:
  "router_update_session_cart_item ''guest-session'' 1 0 guest_db =
     (Inr (), guest_db\<lparr>session_carts := []\<rparr>) \<and>
   router_update_session_cart_item ''guest-session'' 1 4 guest_db =
     (Inr (), guest_db\<lparr>session_carts :=
        [\<lparr>sc_id = 1, sc_session_id = ''guest-session'', sc_product_id = 1, sc_quantity = 4\<rparr>]\<rparr>) \<and>
   router_update_cart_item 1 2 example_user threshold_db =
     (Inr \<lparr>ci_id = 1, ci_user_id = 7, ci_product_id = 1, ci_variant_id = None, ci_quantity = 2\<rparr>,
      threshold_db\<lparr>cart_items :=
        [\<lparr>ci_id = 1, ci_user_id = 7, ci_product_id = 1, ci_variant_id = None, ci_quantity = 2\<rparr>]\<rparr>)"
proof -
  have ug: "order_number_unique guest_db"
    and ut: "order_number_unique threshold_db"
    by (simp_all add: order_number_unique_def example_defs threshold_db_def guest_db_def)
  let ?item = "\<lparr>sc_id = 1, sc_session_id = ''guest-session'', sc_product_id = 1, sc_quantity = 2\<rparr>"
  let ?line = "\<lparr>ci_id = 1, ci_user_id = 7, ci_product_id = 1, ci_variant_id = None, ci_quantity = 5\<rparr>"
  have g: "session_carts guest_db = [] @ ?item # []"
    and c: "cart_items threshold_db = [] @ ?line # []"
    by (simp_all add: example_defs threshold_db_def guest_db_def)
  have r0: "(0::int) \<le> 2147483647" and r4: "(4::int) \<le> 2147483647"
    and r2: "(2::int) \<le> 2147483647"
    by simp_all
  show ?thesis
    using
      set_item_quantity [OF ug r0, where xs = "[]" and item = ?item and ys = "[]"
        and session_id = "''guest-session''" and product_id = 1]
      set_item_quantity [OF ug r4, where xs = "[]" and item = ?item and ys = "[]"
        and session_id = "''guest-session''" and product_id = 1]
      set_item_quantity [OF ut r2, where us = "[]" and line = ?line and vs = "[]"
        and cart_item_id = 1 and current_user = example_user]
      g c
    by (simp add: example_user_def)
qed

text \<open>
  C8 as stated fails for the authenticated cart: a quantity of 0 does not delete the
  line. The request is refused and the line stays in the cart with its quantity of 5.
\<close>

theorem authenticated_zero_quantity_keeps_line:
  "router_update_cart_item 1 0 example_user threshold_db =
     (Inl (HTTPException 400 Quantity_must_be_greater_than_0), threshold_db) \<and>
   get_user_cart threshold_db 7 =
     [\<lparr>ci_id = 1, ci_user_id = 7, ci_product_id = 1, ci_variant_id = None, ci_quantity = 5\<rparr>]"
  by (simp add: router_update_cart_item_def get_user_cart_def example_defs threshold_db_def)

text \<open>
  A quantity above the column's range: the commit raises and the line keeps its old
  quantity.
\<close>

lemma quantity_out_of_range:
  assumes "2147483647 < quantity"
  shows
    "(find (\<lambda>c. sc_session_id c = session_id \<and> sc_product_id c = product_id)
        (session_carts d) \<noteq> None \<longrightarrow>
        router_update_session_cart_item session_id product_id quantity d = (Inl DataError, d)) \<and>
     (find (\<lambda>c. ci_id c = cart_item_id \<and> ci_user_id c = u_id current_user)
        (cart_items d) \<noteq> None \<longrightarrow>
        router_update_cart_item cart_item_id quantity current_user d = (Inl DataError, d))"
  using assms
  by (auto simp: router_update_session_cart_item_def crud_update_session_cart_item_def
      router_update_cart_item_def crud_update_cart_item_def begin_session_def
      db_commit_quantity_def integer_column_def Let_def)

subsection \<open>What a successful checkout leaves behind\<close>

lemma create_order_success:
  assumes "create_order today uuid4 items user_id s = (Inr ord, s')"
  shows "committed s' = working s' \<and>
         orders (working s') = orders (working s) @ [ord] \<and>
         order_number_unique (working s') \<and>
         products (working s') = products (working s) \<and>
         cart_items (working s') = cart_items (working s) \<and>
         session_carts (working s') = session_carts (working s)"
  using assms
  by (auto simp: create_order_def Let_def db_commit_def db_add_order_def
      create_order_add_items_frame order_number_unique_def split: if_splits)

lemma checkout_decrement_stock_frame:
  "checkout_decrement_stock cart s = Inr s' \<Longrightarrow>
     committed s' = committed s \<and>
     orders (working s') = orders (working s) \<and>
     order_items (working s') = order_items (working s) \<and>
     cart_items (working s') = cart_items (working s) \<and>
     session_carts (working s') = session_carts (working s)"
proof (induction cart arbitrary: s)
  case Nil
  then show ?case by simp
next
  case (Cons cart_item rest)
  then show ?case
    by (fastforce simp: set_stock_quantity_def split: option.splits if_splits)
qed

lemma create_order_from_cart_success:
  assumes "create_order_from_cart today uuid4 current_user d = (Inr ord, d')"
  shows "orders d' = orders d @ [ord] \<and>
         order_number_unique d' \<and>
         cart_items d' = filter (\<lambda>c. ci_user_id c \<noteq> u_id current_user) (cart_items d) \<and>
         get_user_cart d (u_id current_user) \<noteq> []"
proof -
  let ?s = "begin_session d"
  let ?cart = "get_user_cart d (u_id current_user)"
  from assms obtain items s1 s2 s3 s4 where
    ne: "?cart \<noteq> []"
    and co: "create_order today uuid4 items (u_id current_user) ?s = (Inr ord, s1)"
    and de: "checkout_decrement_stock ?cart s1 = Inr s2"
    and c2: "db_commit s2 = Inr s3"
    and cl: "clear_user_cart (u_id current_user) s3 = Inr s4"
    and d': "d' = committed s4"
    by (auto simp: create_order_from_cart_def Let_def begin_session_def
        split: if_splits option.splits sum.splits prod.splits)
  note a = create_order_success [OF co]
  note b = checkout_decrement_stock_frame [OF de]
  from c2 have s3: "s3 = s2\<lparr>committed := working s2\<rparr>"
    by (simp add: db_commit_def split: if_splits)
  from cl have s4: "committed s4 = (working s3)
      \<lparr>cart_items := filter (\<lambda>c. ci_user_id c \<noteq> u_id current_user) (cart_items (working s3))\<rparr>"
    by (auto simp: clear_user_cart_def db_commit_def split: if_splits)
  from cl have u4: "order_number_unique (committed s4)"
    by (auto simp: clear_user_cart_def db_commit_def split: if_splits)
  show ?thesis
    using ne a b u4 by (simp add: d' s4 s3 begin_session_def)
qed

lemma session_add_items_frame:
  "session_add_items order_id cart s = (Inr u, s') \<Longrightarrow>
     committed s' = committed s \<and>
     orders (working s') = orders (working s) \<and>
     cart_items (working s') = cart_items (working s) \<and>
     session_carts (working s') = session_carts (working s)"
proof (induction cart arbitrary: s)
  case Nil
  then show ?case by simp
next
  case (Cons cart_item rest)
  then show ?case
    by (fastforce simp: set_stock_quantity_def db_add_order_item_def Let_def
        split: option.splits if_splits)
qed

lemma router_create_order_from_session_cart_success:
  assumes "router_create_order_from_session_cart now session_id d = (Inr ord, d')"
  shows "orders d' = orders d @ [ord] \<and>
         order_number_unique d' \<and>
         session_carts d' = filter (\<lambda>c. sc_session_id c \<noteq> session_id) (session_carts d) \<and>
         get_session_cart_items d session_id \<noteq> []"
proof -
  let ?s = "begin_session d"
  let ?cart = "get_session_cart_items d session_id"
  from assms obtain sf where
    ne: "?cart \<noteq> []"
    and cr: "crud_create_order_from_session_cart now session_id ?s = (Inr (Some ord), sf)"
    and d': "d' = committed sf"
    by (auto simp: router_create_order_from_session_cart_def Let_def begin_session_def
        split: if_splits option.splits sum.splits prod.splits)
  from cr obtain s1 s2 s3 s4 u where
    s1: "s1 = db_add_order ord ?s"
    and c1: "db_commit s1 = Inr s2"
    and lp: "session_add_items (o_id ord) ?cart s2 = (Inr u, s3)"
    and cl: "clear_session_cart session_id s3 = Inr s4"
    and c4: "db_commit s4 = Inr sf"
    by (auto simp: crud_create_order_from_session_cart_def Let_def begin_session_def
        split: if_splits option.splits sum.splits prod.splits)
  from c1 have s2: "s2 = s1\<lparr>committed := working s1\<rparr>"
    by (simp add: db_commit_def split: if_splits)
  note b = session_add_items_frame [OF lp]
  from cl have s4: "working s4 = (working s3)
      \<lparr>session_carts := filter (\<lambda>c. sc_session_id c \<noteq> session_id) (session_carts (working s3))\<rparr>"
    by (auto simp: clear_session_cart_def db_commit_def split: if_splits)
  from c4 have sf: "committed sf = working s4" and uf: "order_number_unique (working s4)"
    by (auto simp: db_commit_def split: if_splits)
  show ?thesis
    using ne b uf by (simp add: d' sf s4 s2 s1 db_add_order_def begin_session_def)
qed

subsection \<open>Checkout of an empty cart\<close>

lemma threshold_checkout_succeeds:
  "\<exists>ord d'. create_order_from_cart ''20240101'' ''abcdef12-0000'' example_user threshold_db
     = (Inr ord, d')"
  by (simp add: checkout_defs session_defs example_defs threshold_db_def Let_def)

lemma guest_checkout_succeeds:
  "\<exists>ord d'. router_create_order_from_session_cart 1700000000 ''guest-session'' guest_db
     = (Inr ord, d')"
  by (simp add: session_checkout_defs session_defs example_defs guest_db_def Let_def)

text \<open>
  C7. A checkout of an empty cart (authenticated or guest) fails with status 400, "Cart
  is empty", and leaves the database as it was, so no order is created. When a checkout
  succeeds, the order is added to the orders table and the owner's cart is empty in the
  resulting database; hence a second checkout run on that database fails with "Cart is
  empty" and leaves it as it is, with no second order.
\<close>

theorem checkout_empty_cart:
  "(get_user_cart d (u_id current_user) = [] \<longrightarrow>
      create_order_from_cart today uuid current_user d =
        (Inl (HTTPException 400 Cart_is_empty), d)) \<and>
   (create_order_from_cart today uuid current_user d = (Inr ord, d') \<longrightarrow>
      orders d' = orders d @ [ord] \<and>
      get_user_cart d' (u_id current_user) = [] \<and>
      create_order_from_cart later_day later_uuid current_user d' =
        (Inl (HTTPException 400 Cart_is_empty), d')) \<and>
   (get_session_cart_items d session_id = [] \<longrightarrow>
      router_create_order_from_session_cart now session_id d =
        (Inl (HTTPException 400 Cart_is_empty), d)) \<and>
   (router_create_order_from_session_cart now session_id d = (Inr gord, gd') \<longrightarrow>
      orders gd' = orders d @ [gord] \<and>
      get_session_cart_items gd' session_id = [] \<and>
      router_create_order_from_session_cart later session_id gd' =
        (Inl (HTTPException 400 Cart_is_empty), gd'))"
proof -
  have e1: "get_user_cart x (u_id current_user) = [] \<Longrightarrow>
      create_order_from_cart t k current_user x = (Inl (HTTPException 400 Cart_is_empty), x)"
    for x t k
    by (simp add: create_order_from_cart_def begin_session_def)
  have e2: "get_session_cart_items x session_id = [] \<Longrightarrow>
      router_create_order_from_session_cart n session_id x =
        (Inl (HTTPException 400 Cart_is_empty), x)"
    for x n
    by (simp add: router_create_order_from_session_cart_def begin_session_def)
  have a: "orders d' = orders d @ [ord] \<and> get_user_cart d' (u_id current_user) = []"
    if "create_order_from_cart today uuid current_user d = (Inr ord, d')"
    using create_order_from_cart_success [OF that] by (simp add: get_user_cart_def)
  have g: "orders gd' = orders d @ [gord] \<and> get_session_cart_items gd' session_id = []"
    if "router_create_order_from_session_cart now session_id d = (Inr gord, gd')"
    using router_create_order_from_session_cart_success [OF that]
    by (simp add: get_session_cart_items_def)
  show ?thesis
  proof (intro conjI impI)
    assume "get_user_cart d (u_id current_user) = []"
    then show "create_order_from_cart today uuid current_user d =
        (Inl (HTTPException 400 Cart_is_empty), d)"
      by (rule e1)
  next
    assume r: "create_order_from_cart today uuid current_user d = (Inr ord, d')"
    from a [OF r] show "orders d' = orders d @ [ord]"
      and c: "get_user_cart d' (u_id current_user) = []"
      by simp_all
    from c show "create_order_from_cart later_day later_uuid current_user d' =
        (Inl (HTTPException 400 Cart_is_empty), d')"
      by (rule e1)
  next
    assume "get_session_cart_items d session_id = []"
    then show "router_create_order_from_session_cart now session_id d =
        (Inl (HTTPException 400 Cart_is_empty), d)"
      by (rule e2)
  next
    assume r: "router_create_order_from_session_cart now session_id d = (Inr gord, gd')"
    from g [OF r] show "orders gd' = orders d @ [gord]"
      and c: "get_session_cart_items gd' session_id = []"
      by simp_all
    from c show "router_create_order_from_session_cart later session_id gd' =
        (Inl (HTTPException 400 Cart_is_empty), gd')"
      by (rule e2)
  qed
qed

theorem checkout_empty_cart_witness:
  "create_order_from_cart ''20240101'' ''abcdef12-0000'' example_user catalog_db =
     (Inl (HTTPException 400 Cart_is_empty), catalog_db) \<and>
   router_create_order_from_session_cart 1700000000 ''guest-session'' catalog_db =
     (Inl (HTTPException 400 Cart_is_empty), catalog_db) \<and>
   (\<exists>ord d'.
      create_order_from_cart ''20240101'' ''abcdef12-0000'' example_user threshold_db
        = (Inr ord, d') \<and>
      orders d' = [ord] \<and>
      get_user_cart d' 7 = [] \<and>
      create_order_from_cart ''20240101'' ''abcdef12-0001'' example_user d' =
        (Inl (HTTPException 400 Cart_is_empty), d')) \<and>
   (\<exists>ord d'.
      router_create_order_from_session_cart 1700000000 ''guest-session'' guest_db
        = (Inr ord, d') \<and>
      orders d' = [ord] \<and>
      get_session_cart_items d' ''guest-session'' = [] \<and>
      router_create_order_from_session_cart 1700000001 ''guest-session'' d' =
        (Inl (HTTPException 400 Cart_is_empty), d'))"
proof -
  have c1: "get_user_cart catalog_db (u_id example_user) = []"
    and c2: "get_session_cart_items catalog_db ''guest-session'' = []"
    by (simp_all add: session_defs example_defs threshold_db_def)
  obtain ord d' where r: "create_order_from_cart ''20240101'' ''abcdef12-0000'' example_user
      threshold_db = (Inr ord, d')"
    using threshold_checkout_succeeds by blast
  obtain gord gd' where gr: "router_create_order_from_session_cart 1700000000 ''guest-session''
      guest_db = (Inr gord, gd')"
    using guest_checkout_succeeds by blast
  have o: "orders threshold_db = []" and go: "orders guest_db = []"
    by (simp_all add: example_defs threshold_db_def guest_db_def)
  have u: "u_id example_user = 7"
    by (simp add: example_user_def)
  note t1 = checkout_empty_cart [where d = catalog_db and current_user = example_user
      and today = "''20240101''" and uuid = "''abcdef12-0000''"
      and session_id = "''guest-session''" and now = 1700000000]
  have w1: "create_order_from_cart ''20240101'' ''abcdef12-0000'' example_user catalog_db =
     (Inl (HTTPException 400 Cart_is_empty), catalog_db)"
    by (rule t1 [THEN conjunct1, THEN mp, OF c1])
  have w2: "router_create_order_from_session_cart 1700000000 ''guest-session'' catalog_db =
     (Inl (HTTPException 400 Cart_is_empty), catalog_db)"
    by (rule t1 [THEN conjunct2, THEN conjunct2, THEN conjunct1, THEN mp, OF c2])
  note t3 = checkout_empty_cart [where d = threshold_db and current_user = example_user
        and today = "''20240101''" and uuid = "''abcdef12-0000''" and ord = ord and d' = d'
        and later_day = "''20240101''" and later_uuid = "''abcdef12-0001''"]
  have w3: "orders d' = orders threshold_db @ [ord] \<and>
      get_user_cart d' (u_id example_user) = [] \<and>
      create_order_from_cart ''20240101'' ''abcdef12-0001'' example_user d' =
        (Inl (HTTPException 400 Cart_is_empty), d')"
    by (rule t3 [THEN conjunct2, THEN conjunct1, THEN mp, OF r])
  note t4 = checkout_empty_cart [where d = guest_db and session_id = "''guest-session''"
        and now = 1700000000 and gord = gord and gd' = gd' and later = 1700000001]
  have w4: "orders gd' = orders guest_db @ [gord] \<and>
      get_session_cart_items gd' ''guest-session'' = [] \<and>
      router_create_order_from_session_cart 1700000001 ''guest-session'' gd' =
        (Inl (HTTPException 400 Cart_is_empty), gd')"
    by (rule t4 [THEN conjunct2, THEN conjunct2, THEN conjunct2, THEN mp, OF gr])
  have x3: "\<exists>ord d'.
      create_order_from_cart ''20240101'' ''abcdef12-0000'' example_user threshold_db
        = (Inr ord, d') \<and>
      orders d' = [ord] \<and>
      get_user_cart d' 7 = [] \<and>
      create_order_from_cart ''20240101'' ''abcdef12-0001'' example_user d' =
        (Inl (HTTPException 400 Cart_is_empty), d')"
    using r w3 unfolding o u by (intro exI [of _ ord] exI [of _ d']) simp
  have x4: "\<exists>ord d'.
      router_create_order_from_session_cart 1700000000 ''guest-session'' guest_db
        = (Inr ord, d') \<and>
      orders d' = [ord] \<and>
      get_session_cart_items d' ''guest-session'' = [] \<and>
      router_create_order_from_session_cart 1700000001 ''guest-session'' d' =
        (Inl (HTTPException 400 Cart_is_empty), d')"
    using gr w4 unfolding go by (intro exI [of _ gord] exI [of _ gd']) simp
  from w1 w2 x3 x4 show ?thesis
    by (intro conjI)
qed

subsection \<open>Order numbers\<close>

lemma first_guest_checkout:
  "router_create_order_from_session_cart 1700000000 ''guest-session'' guest_db =
     (Inr first_guest_order, refilled_db\<lparr>session_carts := []\<rparr>)"
  by (simp add: session_checkout_defs session_defs example_defs guest_db_def
      first_guest_order_def refilled_db_def Let_def)

text \<open>
  The guest order number is a function of the clock's second and the first eight
  characters of the session id, and of nothing else.
\<close>

lemma session_order_number_prefix:
  "take 8 session_id = take 8 other_id \<Longrightarrow>
     session_order_number now session_id = session_order_number now other_id"
  by (simp add: session_order_number_def)

text \<open>
  C9. The guest checkout generates order numbers that are not unique. At second
  1700000000 the sessions "guest-session" and "guest-second" both get the number
  ORD-1700000000-guest-se. The first checkout of "guest-session" stores an order with
  that number. A second checkout in the same second, by the same session with its cart
  filled again or by the session "guest-second", generates the number again; the commit
  of its order row violates the uniqueness constraint, and the request ends with an
  \<open>IntegrityError\<close> that the endpoint does not handle, leaving the database as it was.
\<close>

theorem guest_order_number_repeats:
  "session_order_number 1700000000 ''guest-session'' = ''ORD-1700000000-guest-se'' \<and>
   session_order_number 1700000000 ''guest-second'' = ''ORD-1700000000-guest-se'' \<and>
   router_create_order_from_session_cart 1700000000 ''guest-session'' guest_db =
     (Inr first_guest_order, refilled_db\<lparr>session_carts := []\<rparr>) \<and>
   o_order_number first_guest_order = ''ORD-1700000000-guest-se'' \<and>
   router_create_order_from_session_cart 1700000000 ''guest-session'' refilled_db =
     (Inl IntegrityError, refilled_db) \<and>
   router_create_order_from_session_cart 1700000000 ''guest-second'' other_guest_db =
     (Inl IntegrityError, other_guest_db)"
  by (simp add: session_checkout_defs session_defs example_defs guest_db_def
      first_guest_order_def refilled_db_def other_guest_db_def Let_def)

text \<open>
  What keeps the stored numbers apart is the uniqueness constraint alone: a checkout
  succeeds only when its number differs from every order number in the table, whatever
  the status of those orders is by then.
\<close>

lemma stored_order_numbers_differ:
  assumes first: "create_order_from_cart today uuid current_user d = (Inr o1, d1) \<or>
      router_create_order_from_session_cart now session_id d = (Inr o1, d1)"
    and kept: "set (map o_order_number (orders d1)) \<subseteq> set (map o_order_number (orders e))"
    and second: "create_order_from_cart later_day later_uuid later_user e = (Inr o2, e2) \<or>
      router_create_order_from_session_cart later later_session e = (Inr o2, e2)"
  shows "o_order_number o1 \<noteq> o_order_number o2 \<and> order_number_unique e2"
proof -
  from first have m1: "orders d1 = orders d @ [o1]"
    using create_order_from_cart_success router_create_order_from_session_cart_success
    by metis
  from second have m2: "orders e2 = orders e @ [o2]" and u2: "order_number_unique e2"
    using create_order_from_cart_success router_create_order_from_session_cart_success
    by metis+
  from m1 kept have "o_order_number o1 \<in> set (map o_order_number (orders e))"
    by auto
  moreover from u2 m2 have "o_order_number o2 \<notin> set (map o_order_number (orders e))"
    by (simp add: order_number_unique_def)
  ultimately have "o_order_number o1 \<noteq> o_order_number o2"
    by metis
  then show ?thesis
    using u2 by simp
qed

subsection \<open>Cancelling an order\<close>






subsection \<open>Shipping, rounding and the stored amounts\<close>

lemma create_order_shipping_amount_rule:
  "create_order_shipping_amount subtotal = (if 500 < subtotal then 0 else 50)"
  by (simp add: create_order_shipping_amount_def)

lemma session_cart_shipping_amount_rule:
  "session_cart_shipping_amount subtotal = (if subtotal = 0 \<or> 500 \<le> subtotal then 0 else 50)"
  by (auto simp: session_cart_shipping_amount_def)

lemma cart_summary_shipping_amount_rule:
  "cart_summary_shipping_amount subtotal = (if subtotal = 0 \<or> 500 \<le> subtotal then 0 else 50)"
  by (auto simp: cart_summary_shipping_amount_def)

lemma get_session_cart_shipping:
  "cs_shipping_amount (get_session_cart session_id d) =
     (let subtotal = sum_list (map (\<lambda>item. case products d (sc_product_id item) of
                                             None \<Rightarrow> 0
                                           | Some product \<Rightarrow>
                                               p_price product * of_int (sc_quantity item))
                         (get_session_cart_items d session_id))
      in if subtotal = 0 \<or> 500 \<le> subtotal then 0 else 50)"
  by (simp add: get_session_cart_def Let_def session_cart_shipping_amount_def)

lemma session_order_shipping:
  assumes "router_create_order_from_session_cart now session_id d = (Inr ord, d')"
  shows "\<exists>subtotal. session_subtotal d (get_session_cart_items d session_id) = Inr subtotal \<and>
     o_shipping_amount ord = (if subtotal = 0 \<or> 500 \<le> subtotal then 0 else 50)"
proof -
  from assms obtain sf where
    cr: "crud_create_order_from_session_cart now session_id (begin_session d) = (Inr (Some ord), sf)"
    by (auto simp: router_create_order_from_session_cart_def Let_def
        split: if_splits option.splits sum.splits prod.splits)
  from cr obtain subtotal where
    st: "session_subtotal d (get_session_cart_items d session_id) = Inr subtotal"
    and c: "o_shipping_amount ord = session_cart_shipping_amount subtotal"
    by (auto simp: crud_create_order_from_session_cart_def Let_def begin_session_def
        split: if_splits option.splits sum.splits prod.splits)
  have "session_cart_shipping_amount subtotal = (if subtotal = 0 \<or> 500 \<le> subtotal then 0 else 50)"
    by (auto simp: session_cart_shipping_amount_def)
  with st c show ?thesis
    by simp
qed

lemma get_cart_summary_shipping:
  "get_cart_summary current_user d = Inr summary \<Longrightarrow>
     \<exists>subtotal. cart_subtotal d (get_user_cart d (u_id current_user)) = Inr subtotal \<and>
       cs_shipping_amount summary = (if subtotal = 0 \<or> 500 \<le> subtotal then 0 else 50)"
  by (auto simp: get_cart_summary_def Let_def cart_summary_shipping_amount_def
      split: sum.splits)

lemma two_decimals_py_round2: "two_decimals (py_round2 x)"
  by (simp add: two_decimals_def py_round2_def Let_def)

lemma py_round2_near: "\<bar>py_round2 x - x\<bar> \<le> 1 / 200"
proof -
  define n where "n = \<lfloor>x * 100\<rfloor>"
  have lo: "of_int n \<le> x * 100" and hi: "x * 100 < of_int n + 1"
    unfolding n_def by linarith+
  show ?thesis
    using lo hi unfolding py_round2_def Let_def n_def [symmetric]
    by (auto simp: field_simps abs_le_iff split: if_splits)
qed

text \<open>
  The amounts of a registered user's order are stored as computed: the total is exactly
  subtotal plus tax plus shipping, the tax exactly 18% of the subtotal.
\<close>

lemma create_order_amounts:
  assumes "create_order today uuid items user_id s = (Inr ord, s')"
  shows "o_subtotal ord = sum_list (map (\<lambda>i. of_int (oic_quantity i) * oic_unit_price i) items) \<and>
         o_tax_amount ord = o_subtotal ord * (18 / 100) \<and>
         o_shipping_amount ord = create_order_shipping_amount (o_subtotal ord) \<and>
         o_discount_amount ord = 0 \<and>
         o_total_amount ord =
           o_subtotal ord + o_tax_amount ord + o_shipping_amount ord - o_discount_amount ord"
  using assms
  by (auto simp: create_order_def Let_def split: sum.splits)

text \<open>
  The amounts of a guest order are rounded where they are stored, and the stored total
  is within one hundredth of stored subtotal plus tax plus shipping minus discount.
\<close>

lemma session_order_amounts:
  assumes "router_create_order_from_session_cart now session_id d = (Inr ord, d')"
  shows "two_decimals (o_subtotal ord) \<and> two_decimals (o_tax_amount ord) \<and>
         two_decimals (o_shipping_amount ord) \<and> two_decimals (o_total_amount ord) \<and>
         \<bar>o_total_amount ord -
           (o_subtotal ord + o_tax_amount ord + o_shipping_amount ord - o_discount_amount ord)\<bar>
           \<le> 1 / 100"
proof -
  from assms obtain sf where
    cr: "crud_create_order_from_session_cart now session_id (begin_session d) = (Inr (Some ord), sf)"
    by (auto simp: router_create_order_from_session_cart_def Let_def
        split: if_splits option.splits sum.splits prod.splits)
  from cr obtain subtotal where
    a: "o_subtotal ord = py_round2 subtotal"
    and b: "o_tax_amount ord = py_round2 (subtotal * (18 / 100))"
    and c: "o_shipping_amount ord = session_cart_shipping_amount subtotal"
    and e: "o_discount_amount ord = 0"
    and t: "o_total_amount ord =
       py_round2 (subtotal + py_round2 (subtotal * (18 / 100)) + session_cart_shipping_amount subtotal)"
    by (auto simp: crud_create_order_from_session_cart_def Let_def
        split: if_splits option.splits sum.splits prod.splits)
  have s: "two_decimals (session_cart_shipping_amount subtotal)"
    by (simp add: session_cart_shipping_amount_def two_decimals_def)
  have n1: "\<bar>py_round2 subtotal - subtotal\<bar> \<le> 1 / 200"
    by (rule py_round2_near)
  have n2: "\<bar>py_round2 (subtotal + py_round2 (subtotal * (18 / 100)) +
        session_cart_shipping_amount subtotal) -
      (subtotal + py_round2 (subtotal * (18 / 100)) + session_cart_shipping_amount subtotal)\<bar>
      \<le> 1 / 200"
    by (rule py_round2_near)
  have "\<bar>o_total_amount ord -
           (o_subtotal ord + o_tax_amount ord + o_shipping_amount ord - o_discount_amount ord)\<bar>
           \<le> 1 / 100"
    unfolding a b c e t using n1 n2 by linarith
  then show ?thesis
    using s by (simp add: a b c t two_decimals_py_round2)
qed

subsection \<open>Validation before the first write\<close>

text \<open>
  The guest validation passes exactly when every line's product exists, is active and,
  if it tracks inventory, has at least the requested quantity in stock.
\<close>

lemma session_validate_None_iff:
  "session_validate d cart = None \<longleftrightarrow>
     (\<forall>c\<in>set cart. \<exists>p. products d (sc_product_id c) = Some p \<and> p_status p = ACTIVE \<and>
        \<not> (p_track_inventory p \<and> p_stock_quantity p < sc_quantity c))"
  by (induction cart) (auto split: option.splits)

lemma session_validate_error:
  "session_validate d cart = Some e \<Longrightarrow>
     e = ValueError Product_not_found \<or>
     (\<exists>name. e = ValueError (Product_not_available name)) \<or>
     (\<exists>name available requested. available < requested \<and>
        e = ValueError (Insufficient_stock_requested name available requested))"
  by (induction cart) (auto split: option.splits if_splits)

text \<open>A guest checkout whose validation fails raises that error and writes nothing.\<close>

lemma session_checkout_validation_failure:
  assumes "get_session_cart_items d session_id \<noteq> []"
    and "session_validate d (get_session_cart_items d session_id) = Some e"
  shows "router_create_order_from_session_cart now session_id d = (Inl (value_error_to_http e), d)"
  using assms
  by (simp add: router_create_order_from_session_cart_def
      crud_create_order_from_session_cart_def begin_session_def Let_def)

text \<open>
  The authenticated validation tests the stock only; when it fails the checkout raises
  that error and writes nothing.
\<close>

lemma checkout_validate_stock_None_iff:
  "checkout_validate_stock d cart = None \<longleftrightarrow>
     (\<forall>c\<in>set cart. \<exists>p. products d (ci_product_id c) = Some p \<and>
        \<not> (p_track_inventory p \<and> p_stock_quantity p < ci_quantity c))"
  by (induction cart) (auto split: option.splits)

lemma checkout_validation_failure:
  assumes "get_user_cart d (u_id current_user) \<noteq> []"
    and "checkout_validate_stock d (get_user_cart d (u_id current_user)) = Some e"
  shows "create_order_from_cart today uuid current_user d = (Inl e, d)"
  using assms
  by (simp add: create_order_from_cart_def begin_session_def Let_def)

subsection \<open>Stock after a guest checkout\<close>

text \<open>
  When the item loop of the guest checkout ends without an error, every tracked product
  has lost the quantities of the cart lines that name it, and no tracked product named
  by a line is left with a negative stock.
\<close>

lemma session_add_items_stock:
  assumes "session_add_items order_id cart s = (Inr u, s')"
  shows "products (working s') pid =
           map_option (\<lambda>p. if p_track_inventory p
              then p\<lparr>p_stock_quantity := p_stock_quantity p -
                     sum_list (map sc_quantity (filter (\<lambda>c. sc_product_id c = pid) cart))\<rparr>
              else p) (products (working s) pid) \<and>
         (\<forall>p. products (working s') pid = Some p \<and> p_track_inventory p \<and>
              (\<exists>c\<in>set cart. sc_product_id c = pid) \<longrightarrow> 0 \<le> p_stock_quantity p)"
  using assms
proof (induction cart arbitrary: s)
  case Nil
  then show ?case
    by (cases "products (working s) pid") auto
next
  case (Cons c rest)
  from Cons.prems obtain p where
    p: "products (working s) (sc_product_id c) = Some p"
    and ok: "\<not> (p_track_inventory p \<and> p_stock_quantity p < sc_quantity c)"
    by (auto simp: Let_def split: option.splits if_splits)
  define row where
    "row = \<lparr>oi_id = next_id (map oi_id (order_items (working s))),
            oi_order_id = order_id,
            oi_product_id = sc_product_id c,
            oi_variant_id = None,
            oi_product_name = p_name p,
            oi_product_sku = p_sku p,
            oi_quantity = sc_quantity c,
            oi_unit_price = p_price p,
            oi_total_price = p_price p * of_int (sc_quantity c)\<rparr>"
  define s2 where
    "s2 = (if p_track_inventory p
           then set_stock_quantity (sc_product_id c) (p_stock_quantity p - sc_quantity c)
                  (db_add_order_item row s)
           else db_add_order_item row s)"
  from Cons.prems p ok have r: "session_add_items order_id rest s2 = (Inr u, s')"
    by (auto simp: Let_def s2_def row_def split: if_splits)
  have w2: "products (working s2) =
      (if p_track_inventory p
       then (products (working s))(sc_product_id c \<mapsto>
              p\<lparr>p_stock_quantity := p_stock_quantity p - sc_quantity c\<rparr>)
       else products (working s))"
    using p by (simp add: s2_def set_stock_quantity_def db_add_order_item_def)
  note ih = Cons.IH [OF r]
  show ?case
  proof (cases "sc_product_id c = pid \<and> p_track_inventory p")
    case True
    with ih w2 p ok show ?thesis
      by (auto simp: map_option_case split: option.splits)
  next
    case False
    with ih w2 p show ?thesis
      by (auto simp: map_option_case split: option.splits if_splits)
  qed
qed

lemma session_checkout_stock:
  assumes "router_create_order_from_session_cart now session_id d = (Inr ord, d')"
  shows "products d' pid =
           map_option (\<lambda>p. if p_track_inventory p
              then p\<lparr>p_stock_quantity := p_stock_quantity p -
                     sum_list (map sc_quantity
                       (filter (\<lambda>c. sc_product_id c = pid) (get_session_cart_items d session_id)))\<rparr>
              else p) (products d pid) \<and>
         (\<forall>p. products d' pid = Some p \<and> p_track_inventory p \<and>
              (\<exists>c\<in>set (get_session_cart_items d session_id). sc_product_id c = pid) \<longrightarrow>
              0 \<le> p_stock_quantity p)"
proof -
  let ?s = "begin_session d"
  let ?cart = "get_session_cart_items d session_id"
  from assms obtain sf where
    cr: "crud_create_order_from_session_cart now session_id ?s = (Inr (Some ord), sf)"
    and d': "d' = committed sf"
    by (auto simp: router_create_order_from_session_cart_def Let_def begin_session_def
        split: if_splits option.splits sum.splits prod.splits)
  from cr obtain s1 s2 s3 s4 u where
    s1: "s1 = db_add_order ord ?s"
    and c1: "db_commit s1 = Inr s2"
    and lp: "session_add_items (o_id ord) ?cart s2 = (Inr u, s3)"
    and cl: "clear_session_cart session_id s3 = Inr s4"
    and c4: "db_commit s4 = Inr sf"
    by (auto simp: crud_create_order_from_session_cart_def Let_def begin_session_def
        split: if_splits option.splits sum.splits prod.splits)
  from c1 have p2: "products (working s2) = products d"
    by (auto simp: db_commit_def s1 db_add_order_def begin_session_def split: if_splits)
  from cl have p4: "products (working s4) = products (working s3)"
    by (auto simp: clear_session_cart_def db_commit_def split: if_splits)
  from c4 have pf: "products (committed sf) = products (working s4)"
    by (auto simp: db_commit_def split: if_splits)
  from session_add_items_stock [OF lp, of pid] show ?thesis
    by (simp add: d' pf p4 p2)
qed

subsection \<open>What a failed guest checkout leaves behind\<close>

lemma session_add_items_committed:
  "session_add_items order_id cart s = (r, s') \<Longrightarrow> committed s' = committed s"
proof (induction cart arbitrary: s)
  case Nil
  then show ?case by simp
next
  case (Cons cart_item rest)
  then show ?case
    by (fastforce simp: set_stock_quantity_def db_add_order_item_def db_rollback_def Let_def
        split: option.splits if_splits)
qed

text \<open>
  A guest checkout that raises leaves the database as it was, or as it was with one more
  order row: the row committed before the item loop, which no rollback removes.
\<close>

lemma session_checkout_failure:
  assumes "router_create_order_from_session_cart now session_id d = (Inl e, d')"
  shows "d' = d \<or> (\<exists>ord. d' = d\<lparr>orders := orders d @ [ord]\<rparr>)"
proof -
  let ?s = "begin_session d"
  let ?cart = "get_session_cart_items d session_id"
  show ?thesis
  proof (cases "crud_create_order_from_session_cart now session_id ?s")
    case (Pair r sf)
    with assms have d': "d' = d \<or> d' = committed sf"
      by (auto simp: router_create_order_from_session_cart_def Let_def begin_session_def
          split: if_splits option.splits sum.splits)
    have "committed sf = d \<or> (\<exists>ord. committed sf = d\<lparr>orders := orders d @ [ord]\<rparr>) \<or>
        (\<exists>x. r = Inr (Some x))"
    proof (cases "?cart = [] \<or> session_validate d ?cart \<noteq> None \<or>
        (\<exists>x. session_subtotal d ?cart = Inl x)")
      case True
      with Pair show ?thesis
        by (auto simp: crud_create_order_from_session_cart_def Let_def begin_session_def
            split: option.splits sum.splits if_splits)
    next
      case False
      then obtain subtotal where st: "session_subtotal d ?cart = Inr subtotal"
        and ne: "?cart \<noteq> []" and va: "session_validate d ?cart = None"
        by (cases "session_subtotal d ?cart") auto
      define ord where
        "ord = \<lparr>o_id = next_id (map o_id (orders d)),
            o_order_number = session_order_number now session_id,
            o_user_id = None,
            o_session_id = Some session_id,
            o_subtotal = py_round2 subtotal,
            o_tax_amount = py_round2 (subtotal * (18 / 100)),
            o_shipping_amount = session_cart_shipping_amount subtotal,
            o_discount_amount = 0,
            o_total_amount = py_round2 (subtotal + py_round2 (subtotal * (18 / 100)) +
               session_cart_shipping_amount subtotal),
            o_status = PENDING\<rparr>"
      define s1 where "s1 = db_add_order ord ?s"
      have run: "(r, sf) =
          (case db_commit s1 of
             Inl e \<Rightarrow> (Inl e, s1)
           | Inr s2 \<Rightarrow>
               (case session_add_items (o_id ord) ?cart s2 of
                  (Inl e, s3) \<Rightarrow> (Inl e, s3)
                | (Inr u, s3) \<Rightarrow>
                    (case clear_session_cart session_id s3 of
                       Inl e \<Rightarrow> (Inl e, s3)
                     | Inr s4 \<Rightarrow>
                         (case db_commit s4 of
                            Inl e \<Rightarrow> (Inl e, s4)
                          | Inr s5 \<Rightarrow> (Inr (Some ord), s5)))))"
      proof -
        have wb: "working (begin_session d) = d"
          by (simp add: begin_session_def)
        show ?thesis
          unfolding Pair [symmetric] crud_create_order_from_session_cart_def Let_def wb
          apply (simp only: ne va st if_False option.case sum.case)
          apply (fold ord_def)
          apply (fold s1_def)
          apply (rule refl)
          done
      qed
      show ?thesis
      proof (cases "db_commit s1")
        case (Inl x)
        with run show ?thesis
          by (simp add: s1_def db_add_order_def begin_session_def)
      next
        case (Inr s2)
        then have s2: "s2 = s1\<lparr>committed := working s1\<rparr>"
          and u2: "order_number_unique (working s1)"
          by (auto simp: db_commit_def split: if_splits)
        have c2: "committed s2 = d\<lparr>orders := orders d @ [ord]\<rparr>"
          by (simp add: s2 s1_def db_add_order_def begin_session_def)
        obtain q s3 where lp: "session_add_items (o_id ord) ?cart s2 = (q, s3)"
          by (cases "session_add_items (o_id ord) ?cart s2")
        have c3: "committed s3 = committed s2"
          using lp by (rule session_add_items_committed)
        show ?thesis
        proof (cases q)
          case (Inl x)
          with run Inr lp c3 c2 show ?thesis
            by auto
        next
          case (Inr v)
          with lp have o3: "orders (working s3) = orders (working s2)"
            using session_add_items_frame by blast
          have "order_number_unique (working s3)"
            using u2 o3 by (simp add: s2 order_number_unique_def)
          then obtain s4 where cl: "clear_session_cart session_id s3 = Inr s4"
            and u4: "order_number_unique (working s4)"
            by (auto simp: clear_session_cart_def db_commit_def order_number_unique_def)
          from u4 obtain s5 where "db_commit s4 = Inr s5"
            by (auto simp: db_commit_def)
          with run \<open>db_commit s1 = Inr s2\<close> lp Inr cl show ?thesis
            by auto
        qed
      qed
    qed
    with d' assms Pair show ?thesis
      by (auto simp: router_create_order_from_session_cart_def Let_def begin_session_def
          split: if_splits option.splits sum.splits)
  qed
qed

end
